theory Spec2Isabelle
  imports Main "HOL-Library.Sublist"
begin

section \<open>Values, errors and the plotting calls\<close>

text \<open>
  The monitor passes Python objects through without computing on them. The plot step
  only looks at their shape: whether a value can be unpacked, and how many dimensions
  \<^verbatim>\<open>np.ndim\<close> sees. A sequence (list, tuple, array row) is \<open>PList\<close>; everything else
  is a scalar, of which only a string can be iterated. \<open>PInt\<close> stands for any number: the
  code never computes with one.
\<close>

datatype pyval =
    PNone
  | PInt int
  | PStr string
  | PList "pyval list"

text \<open>The exceptions that the code of \<^verbatim>\<open>data_monitor.py\<close> can meet.\<close>

datatype py_error =
    TimeoutError
  | Empty
  | AttributeError
  | TypeError
  | ValueError
  | IndexError

text \<open>A keyword dictionary (\<^verbatim>\<open>**c\<close>, \<^verbatim>\<open>**kwargs\<close>), in insertion order.\<close>

type_synonym kwargs = "(string \<times> pyval) list"

text \<open>
  The calls the monitor makes into \<^verbatim>\<open>matplotlib.pyplot\<close>, recorded in the order they
  are issued: \<^verbatim>\<open>plt.cla()\<close>, \<^verbatim>\<open>plt.plot(x, y, **c)\<close>,
  \<^verbatim>\<open>getattr(plt, attribute)(*args, **kwargs)\<close> and \<^verbatim>\<open>plt.legend()\<close>.
  The source handles no exception of the library, so a call that raises inside the
  library ends the tick at that call: the calls really made are then a prefix of the
  recorded ones.
\<close>

datatype plt_call =
    Cla
  | Plot pyval pyval kwargs
  | Attr string "pyval list" kwargs
  | Legend

section \<open>The handoff queue and the worker process\<close>

text \<open>
  \<^verbatim>\<open>multiprocessing.Queue\<close>, seen from one process. \<^verbatim>\<open>put\<close> only appends the object
  to the \<open>buffer\<close> of the putting process; a feeder thread pickles the buffered objects
  later, oldest first, and sends them through the pipe. \<open>items\<close> are the values that
  have come through the pipe and that a \<^verbatim>\<open>get(timeout=...)\<close> finds within its wait
  window, oldest first: \<^verbatim>\<open>get\<close> removes the head and raises \<^verbatim>\<open>Empty\<close> when there is
  none. Both \<^verbatim>\<open>put\<close> and \<^verbatim>\<open>get\<close> raise \<^verbatim>\<open>ValueError\<close> on a queue this process has
  closed.
\<close>

record 'a Queue =
  buffer :: "'a list"
  items :: "'a list"
  closed :: bool

definition Queue_new :: "'a Queue" where
  "Queue_new = \<lparr>buffer = [], items = [], closed = False\<rparr>"

definition Queue_put :: "'a Queue \<Rightarrow> 'a \<Rightarrow> py_error + 'a Queue" where
  "Queue_put q v = (if closed q then Inl ValueError else Inr (q\<lparr>buffer := buffer q @ [v]\<rparr>))"

definition Queue_get :: "'a Queue \<Rightarrow> py_error + ('a \<times> 'a Queue)" where
  "Queue_get q =
     (if closed q then Inl ValueError
      else case items q of
             [] \<Rightarrow> Inl Empty
           | v # rest \<Rightarrow> Inr (v, q\<lparr>items := rest\<rparr>))"

definition Queue_close :: "'a Queue \<Rightarrow> 'a Queue" where
  "Queue_close q = q\<lparr>closed := True\<rparr>"

text \<open>
  What happens to the queue outside the calls of this process. The feeder thread sends
  the oldest buffered object, as it is at that moment. The buffer holds the caller's
  objects, not copies, so the caller can still change a buffered object in place
  before it is sent. The other process holding the queue (the render worker for the
  producer, the producer for the render worker) takes the head of the pipe when its
  own getter runs.
\<close>

definition Queue_feed :: "'a Queue \<Rightarrow> 'a Queue" where
  "Queue_feed q =
     (case buffer q of
        [] \<Rightarrow> q
      | v # rest \<Rightarrow> q\<lparr>buffer := rest, items := items q @ [v]\<rparr>)"

definition Queue_mutate :: "'a Queue \<Rightarrow> nat \<Rightarrow> 'a \<Rightarrow> 'a Queue" where
  "Queue_mutate q k w = q\<lparr>buffer := (buffer q)[k := w]\<rparr>"

definition Queue_taken :: "'a Queue \<Rightarrow> 'a Queue" where
  "Queue_taken q =
     (case items q of
        [] \<Rightarrow> q
      | v # rest \<Rightarrow> q\<lparr>items := rest\<rparr>)"

text \<open>
  \<^verbatim>\<open>multiprocessing.Process\<close>, as far as the lifecycle needs it: \<^verbatim>\<open>start\<close> makes the
  process alive, \<^verbatim>\<open>terminate\<close> ends it, \<^verbatim>\<open>join\<close> returns once it has ended.
\<close>

record Process =
  alive :: bool
  joined :: bool

definition Process_start :: "Process" where
  "Process_start = \<lparr>alive = True, joined = False\<rparr>"

definition Process_terminate :: "Process \<Rightarrow> Process" where
  "Process_terminate p = p\<lparr>alive := False\<rparr>"

definition Process_join :: "Process \<Rightarrow> Process" where
  "Process_join p = p\<lparr>alive := False, joined := True\<rparr>"

section \<open>The monitor object\<close>

text \<open>
  The fields of \<^verbatim>\<open>DataMonitor\<close> that its methods read: \<^verbatim>\<open>self._data\<close>,
  \<^verbatim>\<open>self.channels\<close>, \<^verbatim>\<open>self.clear_axes\<close>, \<^verbatim>\<open>self.plt_kwargs\<close>,
  \<^verbatim>\<open>self.update_rate\<close>, \<^verbatim>\<open>self._show_process\<close> and \<^verbatim>\<open>self._data_queue\<close>.
  The figure and axes handles belong to the plotting library and are left out.
  \<open>channels\<close> is \<^verbatim>\<open>None\<close> or a list of keyword dictionaries; every value of
  \<open>plt_kwargs\<close> is a pair \<^verbatim>\<open>(args, kwargs)\<close>, as the constructor's documentation
  requires, kept in the dictionary's iteration order.
\<close>

record monitor =
  priv_data :: pyval
  channels :: "kwargs list option"
  clear_axes :: bool
  plt_kwargs :: "(string \<times> pyval list \<times> kwargs) list"
  update_rate :: int
  priv_show_process :: "Process option"
  priv_data_queue :: "pyval Queue option"

definition DataMonitor_init ::
  "pyval \<Rightarrow> kwargs list option \<Rightarrow> int \<Rightarrow> (string \<times> pyval list \<times> kwargs) list \<Rightarrow> bool \<Rightarrow> monitor" where
  "DataMonitor_init data chans rate kw clear =
     \<lparr>priv_data = data, channels = chans, clear_axes = clear, plt_kwargs = kw,
      update_rate = rate, priv_show_process = None, priv_data_queue = None\<rparr>"

definition DataMonitor_start :: "monitor \<Rightarrow> monitor" where
  "DataMonitor_start st =
     st\<lparr>priv_data_queue := Some Queue_new, priv_show_process := Some Process_start\<rparr>"

definition DataMonitor_enter :: "monitor \<Rightarrow> monitor" where
  "DataMonitor_enter st = DataMonitor_start st"

text \<open>
  \<^verbatim>\<open>__exit__\<close> consists of \<^verbatim>\<open>del self\<close>, which removes the local name \<^verbatim>\<open>self\<close> of
  the method and nothing else: the caller still holds the object, so no finaliser
  runs and no field changes.
\<close>

definition DataMonitor_exit :: "monitor \<Rightarrow> monitor" where
  "DataMonitor_exit st = st"

definition DataMonitor_del :: "monitor \<Rightarrow> monitor" where
  "DataMonitor_del st =
     (let st1 = (case priv_data_queue st of
                   None \<Rightarrow> st
                 | Some q \<Rightarrow> st\<lparr>priv_data_queue := Some (Queue_close q)\<rparr>)
      in case priv_show_process st1 of
           None \<Rightarrow> st1
         | Some p \<Rightarrow> st1\<lparr>priv_show_process := Some (Process_join (Process_terminate p))\<rparr>)"

subsection \<open>The data property\<close>

text \<open>
  The handler of the getter: \<^verbatim>\<open>except (TimeoutError, Empty): pass\<close>, followed by
  \<^verbatim>\<open>return self._data\<close>. Any other exception leaves the getter.
\<close>

definition data_except :: "monitor \<Rightarrow> py_error \<Rightarrow> py_error + (pyval \<times> monitor)" where
  "data_except st e =
     (if e = TimeoutError \<or> e = Empty then Inr (priv_data st, st) else Inl e)"

text \<open>
  The getter returns the value and the monitor it leaves behind. The wait of
  \<^verbatim>\<open>get(timeout=self.update_rate)\<close> is in what the queue holds: a value that comes
  through the pipe within the window is among its \<open>items\<close>, one that the feeder has
  not sent by then is still in the \<open>buffer\<close>. With no queue,
  \<^verbatim>\<open>self._data_queue.get\<close> is an attribute access on \<^verbatim>\<open>None\<close>.
\<close>

definition data_get :: "monitor \<Rightarrow> py_error + (pyval \<times> monitor)" where
  "data_get st =
     (case priv_data_queue st of
        None \<Rightarrow> data_except st AttributeError
      | Some q \<Rightarrow>
          (case Queue_get q of
             Inl e \<Rightarrow> data_except st e
           | Inr (v, q') \<Rightarrow> Inr (v, st\<lparr>priv_data := v, priv_data_queue := Some q'\<rparr>)))"

definition data_set :: "monitor \<Rightarrow> pyval \<Rightarrow> py_error + monitor" where
  "data_set st v =
     (case priv_data_queue st of
        None \<Rightarrow> Inl AttributeError
      | Some q \<Rightarrow>
          (case Queue_put q v of
             Inl e \<Rightarrow> Inl e
           | Inr q' \<Rightarrow> Inr (st\<lparr>priv_data_queue := Some q'\<rparr>)))"

text \<open>
  What can happen between the reads of a handle: a write to the data property, an
  in-place change of the \<open>k\<close>-th buffered object, a send by the feeder thread, and a
  dequeue by the other process. A run stops at the first exception.
\<close>

datatype event =
    Set pyval
  | Mutate nat pyval
  | Feed
  | Taken

fun step :: "monitor \<Rightarrow> event \<Rightarrow> py_error + monitor" where
  "step st (Set v) = data_set st v"
| "step st (Mutate k w) =
     Inr (st\<lparr>priv_data_queue := map_option (\<lambda>q. Queue_mutate q k w) (priv_data_queue st)\<rparr>)"
| "step st Feed = Inr (st\<lparr>priv_data_queue := map_option Queue_feed (priv_data_queue st)\<rparr>)"
| "step st Taken = Inr (st\<lparr>priv_data_queue := map_option Queue_taken (priv_data_queue st)\<rparr>)"

fun run :: "monitor \<Rightarrow> event list \<Rightarrow> py_error + monitor" where
  "run st [] = Inr st"
| "run st (s # ss) = (case step st s of Inl e \<Rightarrow> Inl e | Inr st' \<Rightarrow> run st' ss)"

text \<open>The values written in a run, in the order written.\<close>

fun sets_of :: "event list \<Rightarrow> pyval list" where
  "sets_of [] = []"
| "sets_of (Set v # ss) = v # sets_of ss"
| "sets_of (s # ss) = sets_of ss"


text \<open>A run of reads, stopping at the first exception.\<close>

fun data_gets :: "nat \<Rightarrow> monitor \<Rightarrow> py_error + (pyval list \<times> monitor)" where
  "data_gets 0 st = Inr ([], st)"
| "data_gets (Suc n) st =
     (case data_get st of
        Inl e \<Rightarrow> Inl e
      | Inr (v, st') \<Rightarrow>
          (case data_gets n st' of
             Inl e \<Rightarrow> Inl e
           | Inr (vs, st'') \<Rightarrow> Inr (v # vs, st'')))"

section \<open>Rendering\<close>

subsection \<open>What the plot step takes from Python and numpy\<close>

text \<open>
  \<^verbatim>\<open>x, *y = data\<close>: the first element and the list of the others. An empty sequence
  has too few values (\<^verbatim>\<open>ValueError\<close>), \<^verbatim>\<open>None\<close> and a number cannot be iterated
  (\<^verbatim>\<open>TypeError\<close>), a string is iterated by characters.
\<close>

fun unpack_star :: "pyval \<Rightarrow> py_error + (pyval \<times> pyval list)" where
  "unpack_star (PList []) = Inl ValueError"
| "unpack_star (PList (x # y)) = Inr (x, y)"
| "unpack_star (PStr []) = Inl ValueError"
| "unpack_star (PStr (c # cs)) = Inr (PStr [c], map (\<lambda>d. PStr [d]) cs)"
| "unpack_star PNone = Inl TypeError"
| "unpack_star (PInt n) = Inl TypeError"

text \<open>
  \<^verbatim>\<open>np.ndim(y)\<close> is the number of dimensions of \<^verbatim>\<open>np.asarray(y)\<close>. A scalar has
  shape \<open>[]\<close>; a sequence has its length followed by the shape its elements share;
  elements of different shapes make numpy raise \<^verbatim>\<open>ValueError\<close>.
\<close>

fun np_shape :: "pyval \<Rightarrow> nat list option" where
  "np_shape (PList []) = Some [0]"
| "np_shape (PList (v # vs)) =
     (case np_shape v of
        None \<Rightarrow> None
      | Some s \<Rightarrow>
          if list_all (\<lambda>w. np_shape w = Some s) vs then Some (Suc (length vs) # s) else None)"
| "np_shape PNone = Some []"
| "np_shape (PInt n) = Some []"
| "np_shape (PStr s) = Some []"

definition np_ndim :: "pyval \<Rightarrow> py_error + nat" where
  "np_ndim v = (case np_shape v of None \<Rightarrow> Inl ValueError | Some s \<Rightarrow> Inr (length s))"

subsection \<open>plot, apply\_plt\_kwargs and animate\<close>

text \<open>
  \<^verbatim>\<open>c = {} if self.channels is None else self.channels[i]\<close>; the index is never
  negative, so the lookup fails exactly beyond the end of the list.
\<close>

definition channel :: "monitor \<Rightarrow> nat \<Rightarrow> py_error + kwargs" where
  "channel st i =
     (case channels st of
        None \<Rightarrow> Inr []
      | Some cs \<Rightarrow> if i < length cs then Inr (cs ! i) else Inl IndexError)"

text \<open>
  The body of \<^verbatim>\<open>for i in range(len(y))\<close> over the indices still to visit; every
  index is below \<open>length y\<close>. The result is the calls issued and the exception that
  ended the loop, if any.
\<close>

fun plot_loop :: "monitor \<Rightarrow> pyval \<Rightarrow> pyval list \<Rightarrow> nat list \<Rightarrow> plt_call list \<times> py_error option" where
  "plot_loop st x y [] = ([], None)"
| "plot_loop st x y (i # is) =
     (case channel st i of
        Inl e \<Rightarrow> ([], Some e)
      | Inr c \<Rightarrow>
          (case plot_loop st x y is of
             (calls, err) \<Rightarrow> (Plot x (y ! i) c # calls, err)))"

definition plot :: "monitor \<Rightarrow> pyval \<Rightarrow> plt_call list \<times> py_error option" where
  "plot st data =
     (case unpack_star data of
        Inl e \<Rightarrow> ([], Some e)
      | Inr (x, y) \<Rightarrow>
          (case np_ndim (PList y) of
             Inl e \<Rightarrow> ([], Some e)
           | Inr n \<Rightarrow>
               (let y' = (if n = 1 then [PList y] else y)
                in plot_loop st x y' [0..<length y'])))"

text \<open>
  \<^verbatim>\<open>self.channels is not None and any('label' in c for c in self.channels)\<close>.
\<close>

definition wants_legend :: "monitor \<Rightarrow> bool" where
  "wants_legend st =
     (case channels st of
        None \<Rightarrow> False
      | Some cs \<Rightarrow> list_ex (\<lambda>c. ''label'' \<in> set (map fst c)) cs)"

text \<open>
  \<^verbatim>\<open>getattr(plt, attribute)(*args, **kwargs)\<close> depends on what the module
  \<^verbatim>\<open>matplotlib.pyplot\<close> defines under the name: nothing (\<^verbatim>\<open>AttributeError\<close>), an
  object that cannot be called (\<^verbatim>\<open>TypeError\<close>), or a function, which is then called.
  The namespace of the module is a parameter.
\<close>

datatype plt_member = Function | Other

type_synonym pyplot = "string \<Rightarrow> plt_member option"

text \<open>
  The body of \<^verbatim>\<open>for attribute, (args, kwargs) in self.plt_kwargs.items()\<close> over the
  entries still to visit.
\<close>

fun apply_loop :: "pyplot \<Rightarrow> (string \<times> pyval list \<times> kwargs) list \<Rightarrow> plt_call list \<times> py_error option" where
  "apply_loop plt [] = ([], None)"
| "apply_loop plt ((attribute, args, kwargs) # rest) =
     (case plt attribute of
        None \<Rightarrow> ([], Some AttributeError)
      | Some Other \<Rightarrow> ([], Some TypeError)
      | Some Function \<Rightarrow>
          (case apply_loop plt rest of
             (calls, err) \<Rightarrow> (Attr attribute args kwargs # calls, err)))"

definition apply_plt_kwargs :: "pyplot \<Rightarrow> monitor \<Rightarrow> plt_call list \<times> py_error option" where
  "apply_plt_kwargs plt st =
     (case apply_loop plt (plt_kwargs st) of
        (calls, Some e) \<Rightarrow> (calls, Some e)
      | (calls, None) \<Rightarrow> (calls @ (if wants_legend st then [Legend] else []), None))"

text \<open>
  A part of the namespace of \<^verbatim>\<open>matplotlib.pyplot\<close>, for the examples: the functions
  that the repository's own directive sets name, and \<^verbatim>\<open>rcParams\<close>, which is a
  dictionary.
\<close>

definition pyplot_names :: pyplot where
  "pyplot_names name =
     (if name \<in> set [''xlim'', ''ylim'', ''xlabel'', ''ylabel''] then Some Function
      else if name = ''rcParams'' then Some Other
      else None)"

text \<open>
  One render tick. The frame number \<open>i\<close> is not used. The result is the monitor after
  the data fetch, the calls issued, and the exception that ended the tick, if any.
\<close>

definition animate :: "pyplot \<Rightarrow> monitor \<Rightarrow> nat \<Rightarrow> monitor \<times> plt_call list \<times> py_error option" where
  "animate plt st i =
     (case data_get st of
        Inl e \<Rightarrow> (st, [], Some e)
      | Inr (data, st') \<Rightarrow>
          (let cleared = (if clear_axes st' then [Cla] else [])
           in case plot st' data of
                (plotted, Some e) \<Rightarrow> (st', cleared @ plotted, Some e)
              | (plotted, None) \<Rightarrow>
                  (case apply_plt_kwargs plt st' of
                     (applied, err) \<Rightarrow> (st', cleared @ plotted @ applied, err))))"

section \<open>Properties\<close>

subsection \<open>Auxiliary facts\<close>


lemma data_get_empty:
  "priv_data_queue st = Some q \<Longrightarrow> \<not> closed q \<Longrightarrow> items q = [] \<Longrightarrow>
   data_get st = Inr (priv_data st, st)"
  by (simp add: data_get_def Queue_get_def data_except_def)

lemma data_get_head:
  "priv_data_queue st = Some q \<Longrightarrow> \<not> closed q \<Longrightarrow> items q = v # rest \<Longrightarrow>
   data_get st = Inr (v, st\<lparr>priv_data := v, priv_data_queue := Some (q\<lparr>items := rest\<rparr>)\<rparr>)"
  by (simp add: data_get_def Queue_get_def)


lemma data_get_Inr_fields:
  assumes "data_get st = Inr (v, st')"
  shows "priv_data st' = v \<and> (\<exists>q q'. priv_data_queue st = Some q \<and> priv_data_queue st' = Some q' \<and> \<not> closed q')"
  using assms
  by (auto simp: data_get_def Queue_get_def data_except_def split: option.splits if_splits list.splits)




lemma plot_loop_all:
  assumes "\<forall>i \<in> set is. channel st i = Inr (kw i)"
  shows "plot_loop st x y is = (map (\<lambda>i. Plot x (y ! i) (kw i)) is, None)"
  using assms by (induction "is") simp_all

lemma plot_loop_not_IndexError:
  assumes "channels st = None"
  shows "snd (plot_loop st x y is) \<noteq> Some IndexError"
  using assms by (induction "is") (auto simp: channel_def split: prod.splits)

lemma map_nth_upt: "map (\<lambda>i. f (xs ! i)) [0..<length xs] = map f xs"
proof -
  have "map (\<lambda>i. f (xs ! i)) [0..<length xs] = map f (map ((!) xs) [0..<length xs])"
    by (simp add: comp_def)
  then show ?thesis by (simp only: map_nth)
qed

lemma unpack_star_not_IndexError: "unpack_star d \<noteq> Inl IndexError"
  by (cases d rule: unpack_star.cases) simp_all

lemma np_ndim_not_IndexError: "np_ndim v \<noteq> Inl IndexError"
  by (simp add: np_ndim_def split: option.splits)

lemma plot_unpacked:
  assumes "np_ndim (PList ys) = Inr n"
  shows "plot st (PList (x # ys)) =
           plot_loop st x (if n = 1 then [PList ys] else ys)
             [0..<length (if n = 1 then [PList ys] else ys)]"
  using assms by (simp add: plot_def Let_def)

lemma np_ndim_singleton:
  "np_ndim (PList [v]) = (case np_ndim v of Inl e \<Rightarrow> Inl e | Inr n \<Rightarrow> Inr (Suc n))"
  by (simp add: np_ndim_def split: option.splits)



lemma apply_loop_takeWhile:
  "apply_loop plt es =
     (map (\<lambda>(attribute, args, kwargs). Attr attribute args kwargs)
        (takeWhile (\<lambda>e. plt (fst e) = Some Function) es),
      case dropWhile (\<lambda>e. plt (fst e) = Some Function) es of
        [] \<Rightarrow> None
      | e # rest \<Rightarrow> Some (if plt (fst e) = None then AttributeError else TypeError))"
proof (induction es)
  case Nil
  then show ?case by simp
next
  case (Cons e es)
  obtain attribute args kwargs where e: "e = (attribute, args, kwargs)"
    by (cases e)
  show ?case
  proof (cases "plt attribute")
    case None
    then show ?thesis by (simp add: e)
  next
    case (Some m)
    then show ?thesis using Cons.IH by (cases m) (simp_all add: e)
  qed
qed



lemma apply_plt_kwargs_all:
  assumes "\<forall>e \<in> set (plt_kwargs st). plt (fst e) = Some Function"
  shows "apply_plt_kwargs plt st =
           (map (\<lambda>(attribute, args, kwargs). Attr attribute args kwargs) (plt_kwargs st)
              @ (if wants_legend st then [Legend] else []), None)"
proof -
  have "apply_loop plt es = (map (\<lambda>(attribute, args, kwargs). Attr attribute args kwargs) es, None)"
    if "\<forall>e \<in> set es. plt (fst e) = Some Function" for es
    using that by (induction es) auto
  from this [OF assms] show ?thesis
    by (simp add: apply_plt_kwargs_def)
qed

lemma apply_plt_kwargs_calls:
  "fst (apply_plt_kwargs plt st) =
     map (\<lambda>(attribute, args, kwargs). Attr attribute args kwargs)
       (takeWhile (\<lambda>e. plt (fst e) = Some Function) (plt_kwargs st))
     @ (if dropWhile (\<lambda>e. plt (fst e) = Some Function) (plt_kwargs st) = [] \<and> wants_legend st
        then [Legend] else [])"
proof -
  define D where "D = dropWhile (\<lambda>e. plt (fst e) = Some Function) (plt_kwargs st)"
  have loop: "apply_loop plt (plt_kwargs st) =
                (map (\<lambda>(attribute, args, kwargs). Attr attribute args kwargs)
                   (takeWhile (\<lambda>e. plt (fst e) = Some Function) (plt_kwargs st)),
                 case D of
                   [] \<Rightarrow> None
                 | e # rest \<Rightarrow> Some (if plt (fst e) = None then AttributeError else TypeError))"
    unfolding D_def by (rule apply_loop_takeWhile)
  show ?thesis
    unfolding D_def [symmetric] by (cases D) (simp_all add: apply_plt_kwargs_def loop)
qed

lemma apply_plt_kwargs_error:
  "snd (apply_plt_kwargs plt st) =
     (case dropWhile (\<lambda>e. plt (fst e) = Some Function) (plt_kwargs st) of
        [] \<Rightarrow> None
      | e # rest \<Rightarrow> Some (if plt (fst e) = None then AttributeError else TypeError))"
proof -
  define D where "D = dropWhile (\<lambda>e. plt (fst e) = Some Function) (plt_kwargs st)"
  have loop: "apply_loop plt (plt_kwargs st) =
                (map (\<lambda>(attribute, args, kwargs). Attr attribute args kwargs)
                   (takeWhile (\<lambda>e. plt (fst e) = Some Function) (plt_kwargs st)),
                 case D of
                   [] \<Rightarrow> None
                 | e # rest \<Rightarrow> Some (if plt (fst e) = None then AttributeError else TypeError))"
    unfolding D_def by (rule apply_loop_takeWhile)
  show ?thesis
    unfolding D_def [symmetric] by (cases D) (simp_all add: apply_plt_kwargs_def loop)
qed

text \<open>
  The finaliser closes the queue and terminates and joins the worker, each when the
  slot is not \<^verbatim>\<open>None\<close>.
\<close>

lemma DataMonitor_del_cleans_up:
  assumes "priv_data_queue st = Some q" and "priv_show_process st = Some p"
  shows "priv_data_queue (DataMonitor_del st) = Some (q\<lparr>closed := True\<rparr>)
       \<and> priv_show_process (DataMonitor_del st) = Some (p\<lparr>alive := False, joined := True\<rparr>)"
  using assms
  by (simp add: DataMonitor_del_def Queue_close_def Process_join_def Process_terminate_def)

subsection \<open>The data handoff\<close>

text \<open>
  C1 (amended). On a monitor whose queue is open, the data fetch of a render tick (the
  getter, as \<^verbatim>\<open>animate\<close> calls it) yields the oldest Sample still pending in the queue,
  removes it and stores it as the held Sample; that is the most recently enqueued
  Sample when it is the only one pending. When no Sample is pending within the wait
  window, the fetch yields the previously held Sample and changes nothing.
\<close>

theorem data_fetch_yields_queue_head:
  assumes "priv_data_queue st = Some q" and "\<not> closed q"
  shows "(\<forall>v rest. items q = v # rest \<longrightarrow>
            data_get st = Inr (v, st\<lparr>priv_data := v, priv_data_queue := Some (q\<lparr>items := rest\<rparr>)\<rparr>)
            \<and> fst (animate plt st i) = st\<lparr>priv_data := v, priv_data_queue := Some (q\<lparr>items := rest\<rparr>)\<rparr>
            \<and> (rest = [] \<longrightarrow> v = last (items q)))
       \<and> (items q = [] \<longrightarrow> data_get st = Inr (priv_data st, st) \<and> fst (animate plt st i) = st)"
proof (intro conjI allI impI)
  fix v rest assume h: "items q = v # rest"
  show g: "data_get st = Inr (v, st\<lparr>priv_data := v, priv_data_queue := Some (q\<lparr>items := rest\<rparr>)\<rparr>)"
    using assms h by (rule data_get_head)
  show "fst (animate plt st i) = st\<lparr>priv_data := v, priv_data_queue := Some (q\<lparr>items := rest\<rparr>)\<rparr>"
    by (simp add: animate_def g Let_def split: prod.splits option.splits)
  show "v = last (items q)" if "rest = []"
    using h that by simp
next
  assume h: "items q = []"
  show g: "data_get st = Inr (priv_data st, st)"
    using assms h by (rule data_get_empty)
  show "fst (animate plt st i) = st"
    by (simp add: animate_def g Let_def split: prod.splits option.splits)
qed

theorem data_fetch_yields_queue_head_witness:
  "data_get (DataMonitor_start (DataMonitor_init (PInt 0) None 1 [] True)\<lparr>priv_data_queue := Some \<lparr>buffer = [], items = [PInt 1, PInt 2], closed = False\<rparr>\<rparr>)
     = Inr (PInt 1, DataMonitor_start (DataMonitor_init (PInt 0) None 1 [] True)\<lparr>priv_data := PInt 1, priv_data_queue := Some \<lparr>buffer = [], items = [PInt 2], closed = False\<rparr>\<rparr>)
   \<and> data_get (DataMonitor_start (DataMonitor_init (PInt 0) None 1 [] True))
     = Inr (PInt 0, DataMonitor_start (DataMonitor_init (PInt 0) None 1 [] True))"
  using data_fetch_yields_queue_head
          [of "DataMonitor_start (DataMonitor_init (PInt 0) None 1 [] True)\<lparr>priv_data_queue := Some \<lparr>buffer = [], items = [PInt 1, PInt 2], closed = False\<rparr>\<rparr>"
              "\<lparr>buffer = [], items = [PInt 1, PInt 2], closed = False\<rparr>" pyplot_names 0]
        data_fetch_yields_queue_head
          [of "DataMonitor_start (DataMonitor_init (PInt 0) None 1 [] True)" "\<lparr>buffer = [], items = [], closed = False\<rparr>" pyplot_names 0]
  by (simp add: DataMonitor_start_def DataMonitor_init_def Queue_new_def)

text \<open>
  C1 as stated fails with two Samples pending: after \<^verbatim>\<open>set(1); set(2)\<close>, both sent
  through the pipe, the fetch yields 1, and the most recently enqueued Sample is 2.
\<close>

theorem data_fetch_most_recent_counterexample:
  "\<not> isl (run (DataMonitor_start (DataMonitor_init PNone None 1 [] True)) [Set (PInt 1), Set (PInt 2), Feed, Feed])
   \<and> map_sum id fst
        (data_get (projr (run (DataMonitor_start (DataMonitor_init PNone None 1 [] True))
                              [Set (PInt 1), Set (PInt 2), Feed, Feed])))
       = Inr (PInt 1)
   \<and> PInt 1 \<noteq> last (sets_of [Set (PInt 1), Set (PInt 2), Feed, Feed])"
  by (simp add: DataMonitor_start_def DataMonitor_init_def Queue_new_def data_set_def Queue_put_def
        Queue_feed_def data_get_def Queue_get_def)

text \<open>
  C2. The getter attempts a dequeue. When the dequeue yields a value, the getter
  returns that value, stores it as \<^verbatim>\<open>self._data\<close> and leaves the queue without it.
  When the dequeue raises \<^verbatim>\<open>TimeoutError\<close> or \<^verbatim>\<open>Empty\<close>, the getter returns
  \<^verbatim>\<open>self._data\<close> and leaves the monitor as it was; so a read that times out right
  after a read that dequeued \<open>v\<close> returns \<open>v\<close> again, the last value retrieved. Neither
  exception ever leaves the getter.
\<close>

theorem data_getter_swallows_timeout:
  "data_except st TimeoutError = Inr (priv_data st, st)
   \<and> data_except st Empty = Inr (priv_data st, st)
   \<and> (\<forall>q v q'. priv_data_queue st = Some q \<longrightarrow> Queue_get q = Inr (v, q') \<longrightarrow>
          data_get st = Inr (v, st\<lparr>priv_data := v, priv_data_queue := Some q'\<rparr>))
   \<and> (\<forall>q e. priv_data_queue st = Some q \<longrightarrow> Queue_get q = Inl e \<longrightarrow> (e = TimeoutError \<or> e = Empty)
          \<longrightarrow> data_get st = Inr (priv_data st, st))
   \<and> (\<forall>q v q' e. priv_data_queue st = Some q \<longrightarrow> Queue_get q = Inr (v, q') \<longrightarrow>
          Queue_get q' = Inl e \<longrightarrow> (e = TimeoutError \<or> e = Empty) \<longrightarrow>
          data_get (st\<lparr>priv_data := v, priv_data_queue := Some q'\<rparr>)
            = Inr (v, st\<lparr>priv_data := v, priv_data_queue := Some q'\<rparr>))
   \<and> data_get st \<noteq> Inl TimeoutError \<and> data_get st \<noteq> Inl Empty"
  by (auto simp: data_except_def data_get_def split: option.splits sum.splits if_splits)

theorem data_getter_swallows_timeout_witness:
  "Queue_get \<lparr>buffer = [], items = [PInt 1], closed = False\<rparr> = Inr (PInt 1, Queue_new)
   \<and> Queue_get (Queue_new :: pyval Queue) = Inl Empty
   \<and> data_get (DataMonitor_init (PInt 7) None 1 [] True\<lparr>priv_data_queue := Some \<lparr>buffer = [], items = [PInt 1], closed = False\<rparr>\<rparr>)
       = Inr (PInt 1, DataMonitor_init (PInt 7) None 1 [] True\<lparr>priv_data := PInt 1, priv_data_queue := Some Queue_new\<rparr>)
   \<and> data_get (DataMonitor_init (PInt 7) None 1 [] True\<lparr>priv_data := PInt 1, priv_data_queue := Some Queue_new\<rparr>)
       = Inr (PInt 1, DataMonitor_init (PInt 7) None 1 [] True\<lparr>priv_data := PInt 1, priv_data_queue := Some Queue_new\<rparr>)
   \<and> data_get (DataMonitor_init (PInt 7) None 1 [] True\<lparr>priv_data_queue := Some Queue_new\<rparr>)
       = Inr (PInt 7, DataMonitor_init (PInt 7) None 1 [] True\<lparr>priv_data_queue := Some Queue_new\<rparr>)"
proof -
  let ?q = "\<lparr>buffer = [], items = [PInt 1], closed = False\<rparr> :: pyval Queue"
  let ?a = "DataMonitor_init (PInt 7) None 1 [] True\<lparr>priv_data_queue := Some ?q\<rparr>"
  let ?c = "DataMonitor_init (PInt 7) None 1 [] True\<lparr>priv_data_queue := Some Queue_new\<rparr>"
  have g1: "Queue_get ?q = Inr (PInt 1, Queue_new)"
    by (simp add: Queue_get_def Queue_new_def)
  have g2: "Queue_get (Queue_new :: pyval Queue) = Inl Empty"
    by (simp add: Queue_get_def Queue_new_def)
  have qa: "priv_data_queue ?a = Some ?q" and qc: "priv_data_queue ?c = Some Queue_new"
    by simp_all
  from data_getter_swallows_timeout [of ?a] qa g1 g2
  have a: "data_get ?a = Inr (PInt 1, ?a\<lparr>priv_data := PInt 1, priv_data_queue := Some Queue_new\<rparr>)"
      and b: "data_get (?a\<lparr>priv_data := PInt 1, priv_data_queue := Some Queue_new\<rparr>)
                = Inr (PInt 1, ?a\<lparr>priv_data := PInt 1, priv_data_queue := Some Queue_new\<rparr>)"
    by blast+
  from data_getter_swallows_timeout [of ?c] qc g2
  have c: "data_get ?c = Inr (priv_data ?c, ?c)"
    by blast
  from g1 g2 a b c show ?thesis
    by (simp add: DataMonitor_init_def)
qed




text \<open>
  C4 (amended). After a read that returned \<open>v\<close>, with no write in between: if no
  Sample is pending in the queue, the next read returns \<open>v\<close> again and changes nothing;
  if Samples are pending, the next read returns the oldest of them.
\<close>

theorem second_get_same_when_nothing_pending:
  assumes "data_get st = Inr (v, st')"
      and "priv_data_queue st' = Some q'"
  shows "(items q' = [] \<longrightarrow> data_get st' = Inr (v, st'))
       \<and> (\<forall>w rest. items q' = w # rest \<longrightarrow>
             data_get st' = Inr (w, st'\<lparr>priv_data := w, priv_data_queue := Some (q'\<lparr>items := rest\<rparr>)\<rparr>))"
proof -
  have f: "priv_data st' = v" "\<not> closed q'"
    using data_get_Inr_fields [OF assms(1)] assms(2) by auto
  show ?thesis
    using data_get_empty [OF assms(2) f(2)] data_get_head [OF assms(2) f(2)] f(1) by auto
qed

theorem second_get_same_when_nothing_pending_witness:
  "data_get (DataMonitor_start (DataMonitor_init (PInt 0) None 1 [] True)\<lparr>priv_data_queue := Some \<lparr>buffer = [], items = [PInt 1], closed = False\<rparr>\<rparr>)
     = Inr (PInt 1, DataMonitor_start (DataMonitor_init (PInt 0) None 1 [] True)\<lparr>priv_data := PInt 1, priv_data_queue := Some \<lparr>buffer = [], items = [], closed = False\<rparr>\<rparr>)
   \<and> data_get (DataMonitor_start (DataMonitor_init (PInt 0) None 1 [] True)\<lparr>priv_data := PInt 1, priv_data_queue := Some \<lparr>buffer = [], items = [], closed = False\<rparr>\<rparr>)
     = Inr (PInt 1, DataMonitor_start (DataMonitor_init (PInt 0) None 1 [] True)\<lparr>priv_data := PInt 1, priv_data_queue := Some \<lparr>buffer = [], items = [], closed = False\<rparr>\<rparr>)"
proof -
  let ?a = "DataMonitor_start (DataMonitor_init (PInt 0) None 1 [] True)\<lparr>priv_data_queue := Some \<lparr>buffer = [], items = [PInt 1], closed = False\<rparr>\<rparr>"
  let ?b = "DataMonitor_start (DataMonitor_init (PInt 0) None 1 [] True)\<lparr>priv_data := PInt 1, priv_data_queue := Some \<lparr>buffer = [], items = [], closed = False\<rparr>\<rparr>"
  have first: "data_get ?a = Inr (PInt 1, ?b)"
    by (simp add: data_get_def Queue_get_def DataMonitor_start_def DataMonitor_init_def)
  have slot: "priv_data_queue ?b = Some \<lparr>buffer = [], items = [], closed = False\<rparr>"
    by simp
  from second_get_same_when_nothing_pending [OF first slot] first show ?thesis
    by simp
qed

text \<open>
  C4 as stated fails with two Samples pending: after \<^verbatim>\<open>set(1); set(2)\<close>, both sent
  through the pipe, two reads in a row, with no write between them, return 1 and
  then 2.
\<close>

theorem second_get_same_counterexample:
  "\<not> isl (run (DataMonitor_start (DataMonitor_init PNone None 1 [] True)) [Set (PInt 1), Set (PInt 2), Feed, Feed])
   \<and> map_sum id fst
        (data_gets 2 (projr (run (DataMonitor_start (DataMonitor_init PNone None 1 [] True))
                                 [Set (PInt 1), Set (PInt 2), Feed, Feed])))
       = Inr [PInt 1, PInt 2]
   \<and> PInt 1 \<noteq> PInt 2"
  by (simp add: numeral_2_eq_2 DataMonitor_start_def DataMonitor_init_def Queue_new_def data_set_def
        Queue_put_def Queue_feed_def data_get_def Queue_get_def)

subsection \<open>Lifecycle\<close>

text \<open>
  C5. Leaving the scope should terminate and join the worker and close the queue. The
  method \<^verbatim>\<open>__exit__\<close> does none of it: after entering the scope and leaving it at once,
  without any write, the worker is still alive and not joined, and the queue is still
  open.
\<close>

theorem exit_leaves_worker_running:
  "priv_show_process (DataMonitor_exit (DataMonitor_enter (DataMonitor_init data chans rate kw clear)))
     = Some \<lparr>alive = True, joined = False\<rparr>
   \<and> priv_data_queue (DataMonitor_exit (DataMonitor_enter (DataMonitor_init data chans rate kw clear)))
     = Some \<lparr>buffer = [], items = [], closed = False\<rparr>"
  by (simp add: DataMonitor_exit_def DataMonitor_enter_def DataMonitor_start_def
        Process_start_def Queue_new_def)

subsection \<open>Render tick\<close>




text \<open>
  C7. With \<^verbatim>\<open>channels\<close> omitted (\<^verbatim>\<open>None\<close>), the plot step of a Sample \<open>x # ys\<close> whose
  y part has a shape plots every series against \<open>x\<close> with an empty keyword set and
  raises nothing: the series are the elements of \<open>ys\<close>, or \<open>ys\<close> itself as one series
  when it is one-dimensional. No legend call is made, and for no data at all does the
  plot step raise the \<^verbatim>\<open>IndexError\<close> of a descriptor lookup.
\<close>

theorem plot_without_channels:
  assumes "channels st = None" and "np_ndim (PList ys) = Inr n"
  shows "plot st (PList (x # ys)) = (map (\<lambda>s. Plot x s []) (if n = 1 then [PList ys] else ys), None)
       \<and> Legend \<notin> set (fst (apply_plt_kwargs plt st))
       \<and> (\<forall>d. snd (plot st d) \<noteq> Some IndexError)"
proof (intro conjI allI)
  let ?y = "if n = 1 then [PList ys] else ys"
  have c: "\<forall>i \<in> set [0..<length ?y]. channel st i = Inr []"
    using assms(1) by (simp add: channel_def)
  have "plot st (PList (x # ys)) = plot_loop st x ?y [0..<length ?y]"
    using assms(2) by (simp add: plot_def Let_def)
  also have "\<dots> = (map (\<lambda>i. Plot x (?y ! i) []) [0..<length ?y], None)"
    using c by (rule plot_loop_all)
  also have "map (\<lambda>i. Plot x (?y ! i) []) [0..<length ?y] = map (\<lambda>s. Plot x s []) ?y"
    by (rule map_nth_upt)
  finally show "plot st (PList (x # ys)) = (map (\<lambda>s. Plot x s []) ?y, None)" .
  have "\<not> wants_legend st"
    using assms(1) by (simp add: wants_legend_def)
  then show "Legend \<notin> set (fst (apply_plt_kwargs plt st))"
    by (auto simp: apply_plt_kwargs_calls)
  fix d show "snd (plot st d) \<noteq> Some IndexError"
    using plot_loop_not_IndexError [OF assms(1)] unpack_star_not_IndexError [of d]
      np_ndim_not_IndexError
    by (auto simp: plot_def Let_def split: sum.splits prod.splits)
qed

theorem plot_without_channels_witness:
  "plot (DataMonitor_init PNone None 1 [] True)
        (PList [PList [PInt 0, PInt 1, PInt 2], PList [PInt 0, PInt 1, PInt 0], PList [PInt 2, PInt 1, PInt 2]])
     = ([Plot (PList [PInt 0, PInt 1, PInt 2]) (PList [PInt 0, PInt 1, PInt 0]) [],
         Plot (PList [PInt 0, PInt 1, PInt 2]) (PList [PInt 2, PInt 1, PInt 2]) []], None)
   \<and> Legend \<notin> set (fst (apply_plt_kwargs pyplot_names (DataMonitor_init PNone None 1 [] True)))"
proof -
  have c: "channels (DataMonitor_init PNone None 1 [] True) = None"
    by (simp add: DataMonitor_init_def)
  have d: "np_ndim (PList [PList [PInt 0, PInt 1, PInt 0], PList [PInt 2, PInt 1, PInt 2]]) = Inr 2"
    by (simp add: np_ndim_def)
  from plot_without_channels [OF c d, of "PList [PInt 0, PInt 1, PInt 2]" pyplot_names] show ?thesis
    by simp
qed

text \<open>
  C8. When every name in \<^verbatim>\<open>plt_kwargs\<close> is a function of pyplot, applying the
  directives issues one call per entry, in the entries' order, each with exactly the
  entry's name, positional and keyword arguments, followed only by the legend call
  when it is due, and raises nothing. In general the entries are visited in order:
  an entry all of whose predecessors, and itself, name functions of pyplot gives its
  call at its position; every attribute call issued is the call of an entry; and an
  entry whose name pyplot lacks, or whose object cannot be called, raises
  \<^verbatim>\<open>AttributeError\<close> or \<^verbatim>\<open>TypeError\<close>, with no legend call. In particular the
  directive \<^verbatim>\<open>{'xlim': ((0, 10), {})}\<close> gives the call \<^verbatim>\<open>plt.xlim(0, 10)\<close>.
\<close>

theorem apply_plt_kwargs_forwards:
  "((\<forall>e \<in> set (plt_kwargs st). plt (fst e) = Some Function) \<longrightarrow>
      apply_plt_kwargs plt st =
        (map (\<lambda>(attribute, args, kwargs). Attr attribute args kwargs) (plt_kwargs st)
           @ (if wants_legend st then [Legend] else []), None))
   \<and> (\<forall>j attribute args kwargs.
         j < length (plt_kwargs st) \<longrightarrow>
         (\<forall>k \<le> j. plt (fst (plt_kwargs st ! k)) = Some Function) \<longrightarrow>
         plt_kwargs st ! j = (attribute, args, kwargs) \<longrightarrow>
         j < length (fst (apply_plt_kwargs plt st))
         \<and> fst (apply_plt_kwargs plt st) ! j = Attr attribute args kwargs)
   \<and> (\<forall>attribute args kwargs.
         Attr attribute args kwargs \<in> set (fst (apply_plt_kwargs plt st)) \<longrightarrow>
         (attribute, args, kwargs) \<in> set (plt_kwargs st) \<and> plt attribute = Some Function)
   \<and> ((\<exists>e \<in> set (plt_kwargs st). plt (fst e) \<noteq> Some Function) \<longrightarrow>
         (snd (apply_plt_kwargs plt st) = Some AttributeError \<or> snd (apply_plt_kwargs plt st) = Some TypeError)
         \<and> Legend \<notin> set (fst (apply_plt_kwargs plt st)))
   \<and> (plt ''xlim'' = Some Function \<longrightarrow> plt_kwargs st = [(''xlim'', [PInt 0, PInt 10], [])] \<longrightarrow>
         hd (fst (apply_plt_kwargs plt st)) = Attr ''xlim'' [PInt 0, PInt 10] []
         \<and> apply_plt_kwargs plt st
             = (Attr ''xlim'' [PInt 0, PInt 10] [] # (if wants_legend st then [Legend] else []), None))"
proof -
  let ?P = "\<lambda>e. plt (fst e) = Some Function"
  let ?es = "plt_kwargs st"
  note calls = apply_plt_kwargs_calls [of plt st]
  note err = apply_plt_kwargs_error [of plt st]
  have 1: "apply_plt_kwargs plt st =
             (map (\<lambda>(attribute, args, kwargs). Attr attribute args kwargs) ?es
                @ (if wants_legend st then [Legend] else []), None)"
    if "\<forall>e \<in> set ?es. ?P e"
    using that by (rule apply_plt_kwargs_all)
  have 2: "j < length (fst (apply_plt_kwargs plt st))
           \<and> fst (apply_plt_kwargs plt st) ! j = Attr attribute args kwargs"
    if j: "j < length ?es" and ok: "\<forall>k \<le> j. ?P (?es ! k)" and e: "?es ! j = (attribute, args, kwargs)"
    for j attribute args kwargs
  proof -
    have "?P (?es ! i)" if "i < Suc j" for i
      using ok that by (simp add: less_Suc_eq_le)
    moreover have "Suc j \<le> length ?es"
      using j by simp
    ultimately have "Suc j \<le> length (takeWhile ?P ?es)"
      by (rule length_takeWhile_less_P_nth [of "Suc j" ?P ?es])
    then have lt: "j < length (takeWhile ?P ?es)"
      by simp
    then have "takeWhile ?P ?es ! j = ?es ! j"
      by (rule takeWhile_nth)
    with lt e show ?thesis
      unfolding calls by (simp add: nth_append)
  qed
  have 3: "(attribute, args, kwargs) \<in> set ?es \<and> plt attribute = Some Function"
    if a: "Attr attribute args kwargs \<in> set (fst (apply_plt_kwargs plt st))" for attribute args kwargs
  proof -
    from a have "Attr attribute args kwargs
                   \<in> set (map (\<lambda>(attribute, args, kwargs). Attr attribute args kwargs) (takeWhile ?P ?es))"
      unfolding calls by (simp split: if_splits)
    then have m: "(attribute, args, kwargs) \<in> set (takeWhile ?P ?es)"
      by auto
    from set_takeWhileD [OF m] show ?thesis
      by simp
  qed
  have 4: "(snd (apply_plt_kwargs plt st) = Some AttributeError \<or> snd (apply_plt_kwargs plt st) = Some TypeError)
           \<and> Legend \<notin> set (fst (apply_plt_kwargs plt st))"
    if "\<exists>e \<in> set ?es. \<not> ?P e"
  proof -
    from that have "dropWhile ?P ?es \<noteq> []"
      by (simp add: dropWhile_eq_Nil_conv)
    then obtain e rest where d: "dropWhile ?P ?es = e # rest"
      by (cases "dropWhile ?P ?es") auto
    have "Legend \<notin> set (fst (apply_plt_kwargs plt st))"
      unfolding calls by (auto simp: d)
    moreover have "snd (apply_plt_kwargs plt st) = Some AttributeError
                   \<or> snd (apply_plt_kwargs plt st) = Some TypeError"
      unfolding err by (simp add: d)
    ultimately show ?thesis by simp
  qed
  have 5: "hd (fst (apply_plt_kwargs plt st)) = Attr ''xlim'' [PInt 0, PInt 10] []
           \<and> apply_plt_kwargs plt st
               = (Attr ''xlim'' [PInt 0, PInt 10] [] # (if wants_legend st then [Legend] else []), None)"
    if "plt ''xlim'' = Some Function" and "plt_kwargs st = [(''xlim'', [PInt 0, PInt 10], [])]"
    using that by (simp add: apply_plt_kwargs_def)
  show ?thesis
  proof (intro conjI allI impI)
    assume "\<forall>e \<in> set ?es. ?P e"
    then show "apply_plt_kwargs plt st =
             (map (\<lambda>(attribute, args, kwargs). Attr attribute args kwargs) ?es
                @ (if wants_legend st then [Legend] else []), None)"
      by (rule 1)
  next
    fix j attribute args kwargs
    assume h: "j < length ?es" "\<forall>k \<le> j. ?P (?es ! k)" "?es ! j = (attribute, args, kwargs)"
    from 2 [OF h] show "j < length (fst (apply_plt_kwargs plt st))"
      and "fst (apply_plt_kwargs plt st) ! j = Attr attribute args kwargs"
      by simp_all
  next
    fix attribute args kwargs
    assume h: "Attr attribute args kwargs \<in> set (fst (apply_plt_kwargs plt st))"
    from 3 [OF h] show "(attribute, args, kwargs) \<in> set ?es" and "plt attribute = Some Function"
      by simp_all
  next
    assume h: "\<exists>e \<in> set ?es. \<not> ?P e"
    from 4 [OF h] show "snd (apply_plt_kwargs plt st) = Some AttributeError
                        \<or> snd (apply_plt_kwargs plt st) = Some TypeError"
      and "Legend \<notin> set (fst (apply_plt_kwargs plt st))"
      by simp_all
  next
    assume h: "plt ''xlim'' = Some Function" "plt_kwargs st = [(''xlim'', [PInt 0, PInt 10], [])]"
    from 5 [OF h] show "hd (fst (apply_plt_kwargs plt st)) = Attr ''xlim'' [PInt 0, PInt 10] []"
      and "apply_plt_kwargs plt st
             = (Attr ''xlim'' [PInt 0, PInt 10] [] # (if wants_legend st then [Legend] else []), None)"
      by simp_all
  qed
qed

theorem apply_plt_kwargs_forwards_witness:
  "apply_plt_kwargs pyplot_names (DataMonitor_init PNone None 1 [(''xlim'', [PInt 0, PInt 10], [])] True)
     = ([Attr ''xlim'' [PInt 0, PInt 10] []], None)
   \<and> (snd (apply_plt_kwargs pyplot_names
              (DataMonitor_init PNone None 1 [(''xlim'', [PInt 0, PInt 10], []), (''nosuch'', [], [])] True))
         = Some AttributeError
       \<or> snd (apply_plt_kwargs pyplot_names
              (DataMonitor_init PNone None 1 [(''xlim'', [PInt 0, PInt 10], []), (''nosuch'', [], [])] True))
         = Some TypeError)
   \<and> fst (apply_plt_kwargs pyplot_names
             (DataMonitor_init PNone None 1 [(''xlim'', [PInt 0, PInt 10], []), (''nosuch'', [], [])] True)) ! 0
       = Attr ''xlim'' [PInt 0, PInt 10] []"
proof -
  let ?a = "DataMonitor_init PNone None 1 [(''xlim'', [PInt 0, PInt 10], [])] True"
  let ?b = "DataMonitor_init PNone None 1 [(''xlim'', [PInt 0, PInt 10], []), (''nosuch'', [], [])] True"
  note ta = apply_plt_kwargs_forwards [of ?a pyplot_names]
  note tb = apply_plt_kwargs_forwards [of ?b pyplot_names]
  have x: "pyplot_names ''xlim'' = Some Function" and n: "pyplot_names ''nosuch'' = None"
    by (simp_all add: pyplot_names_def)
  have ka: "plt_kwargs ?a = [(''xlim'', [PInt 0, PInt 10], [])]"
    and kb: "plt_kwargs ?b = [(''xlim'', [PInt 0, PInt 10], []), (''nosuch'', [], [])]"
    and wa: "\<not> wants_legend ?a"
    by (simp_all add: DataMonitor_init_def wants_legend_def)
  have alla: "\<forall>e \<in> set (plt_kwargs ?a). pyplot_names (fst e) = Some Function"
    by (simp add: ka x)
  from ta [THEN conjunct1, THEN mp, OF alla]
  have a: "apply_plt_kwargs pyplot_names ?a = ([Attr ''xlim'' [PInt 0, PInt 10] []], None)"
    by (simp add: ka wa)
  have bad: "\<exists>e \<in> set (plt_kwargs ?b). pyplot_names (fst e) \<noteq> Some Function"
    by (simp add: kb n)
  from tb [THEN conjunct2, THEN conjunct2, THEN conjunct2, THEN conjunct1, THEN mp, OF bad]
  have b: "snd (apply_plt_kwargs pyplot_names ?b) = Some AttributeError
           \<or> snd (apply_plt_kwargs pyplot_names ?b) = Some TypeError"
    by simp
  have k0: "\<forall>k \<le> 0. pyplot_names (fst (plt_kwargs ?b ! k)) = Some Function"
    by (simp add: kb x)
  have j0: "0 < length (plt_kwargs ?b)" and e0: "plt_kwargs ?b ! 0 = (''xlim'', [PInt 0, PInt 10], [])"
    by (simp_all add: kb)
  from tb [THEN conjunct2, THEN conjunct1, THEN spec, THEN spec, THEN spec, THEN spec,
           THEN mp, THEN mp, THEN mp, OF j0 k0 e0]
  have c: "fst (apply_plt_kwargs pyplot_names ?b) ! 0 = Attr ''xlim'' [PInt 0, PInt 10] []"
    by simp
  from a b c show ?thesis by (intro conjI)
qed

subsection \<open>Before start\<close>

text \<open>
  C9. A monitor as the constructor leaves it has no queue and no worker: reading and
  writing the data property both raise \<^verbatim>\<open>AttributeError\<close>, the finaliser does
  nothing, and after \<^verbatim>\<open>start()\<close> both the read and the write succeed.
\<close>

theorem unstarted_monitor_raises:
  "priv_data_queue (DataMonitor_init data chans rate kw clear) = None
   \<and> priv_show_process (DataMonitor_init data chans rate kw clear) = None
   \<and> data_get (DataMonitor_init data chans rate kw clear) = Inl AttributeError
   \<and> data_set (DataMonitor_init data chans rate kw clear) v = Inl AttributeError
   \<and> DataMonitor_del (DataMonitor_init data chans rate kw clear) = DataMonitor_init data chans rate kw clear
   \<and> (\<exists>r. data_get (DataMonitor_start (DataMonitor_init data chans rate kw clear)) = Inr r)
   \<and> (\<exists>st. data_set (DataMonitor_start (DataMonitor_init data chans rate kw clear)) v = Inr st)"
  by (simp add: DataMonitor_init_def DataMonitor_start_def DataMonitor_del_def data_get_def
        data_set_def data_except_def Queue_new_def Queue_get_def Queue_put_def)

subsection \<open>Single series\<close>

text \<open>
  C10. For a Sample of length two whose channel descriptor is available: when the
  unpacked y part \<open>[y0]\<close> is one-dimensional, the plot step wraps it and draws exactly
  one series, \<open>x\<close> against \<open>[y0]\<close>, which is also what the Sample carrying the explicit
  row \<open>[y0]\<close> draws; and when the second element \<open>y1\<close> is itself a one-dimensional
  series, exactly one series is drawn, \<open>x\<close> against \<open>y1\<close>.
\<close>

theorem plot_single_series:
  assumes "channel st 0 = Inr c"
  shows "(np_ndim (PList [y0]) = Inr 1 \<longrightarrow>
            plot st (PList [x, y0]) = ([Plot x (PList [y0]) c], None)
            \<and> plot st (PList [x, y0]) = plot st (PList [x, PList [y0]]))
       \<and> (np_ndim y1 = Inr 1 \<longrightarrow> plot st (PList [x, y1]) = ([Plot x y1 c], None))"
proof (intro conjI impI)
  assume d: "np_ndim (PList [y0]) = Inr 1"
  show a: "plot st (PList [x, y0]) = ([Plot x (PList [y0]) c], None)"
    using assms by (simp add: plot_unpacked [OF d])
  have "np_ndim (PList [PList [y0]]) = Inr 2"
    using d by (simp add: np_ndim_singleton [of "PList [y0]"])
  from plot_unpacked [OF this] assms
  have "plot st (PList [x, PList [y0]]) = ([Plot x (PList [y0]) c], None)"
    by simp
  with a show "plot st (PList [x, y0]) = plot st (PList [x, PList [y0]])"
    by simp
next
  assume d: "np_ndim y1 = Inr 1"
  have "np_ndim (PList [y1]) = Inr 2"
    using d by (simp add: np_ndim_singleton [of y1])
  from plot_unpacked [OF this] assms
  show "plot st (PList [x, y1]) = ([Plot x y1 c], None)"
    by simp
qed

theorem plot_single_series_witness:
  "plot (DataMonitor_init PNone (Some [[(''label'', PStr ''Channel 1'')]]) 1 [] True) (PList [PInt 3, PInt 5])
     = ([Plot (PInt 3) (PList [PInt 5]) [(''label'', PStr ''Channel 1'')]], None)
   \<and> plot (DataMonitor_init PNone (Some [[(''label'', PStr ''Channel 1'')]]) 1 [] True) (PList [PInt 3, PInt 5])
     = plot (DataMonitor_init PNone (Some [[(''label'', PStr ''Channel 1'')]]) 1 [] True) (PList [PInt 3, PList [PInt 5]])
   \<and> plot (DataMonitor_init PNone (Some [[(''label'', PStr ''Channel 1'')]]) 1 [] True)
          (PList [PList [PInt 0, PInt 1, PInt 2], PList [PInt 0, PInt 1, PInt 0]])
     = ([Plot (PList [PInt 0, PInt 1, PInt 2]) (PList [PInt 0, PInt 1, PInt 0]) [(''label'', PStr ''Channel 1'')]], None)"
proof -
  let ?m = "DataMonitor_init PNone (Some [[(''label'', PStr ''Channel 1'')]]) 1 [] True"
  have c: "channel ?m 0 = Inr [(''label'', PStr ''Channel 1'')]"
    by (simp add: channel_def DataMonitor_init_def)
  have d0: "np_ndim (PList [PInt 5]) = Inr 1" and d1: "np_ndim (PList [PInt 0, PInt 1, PInt 0]) = Inr 1"
    by (simp_all add: np_ndim_def)
  from plot_single_series [OF c, of "PInt 5" "PInt 3" "PList [PInt 0, PInt 1, PInt 0]"] d0
  have ab: "plot ?m (PList [PInt 3, PInt 5]) = ([Plot (PInt 3) (PList [PInt 5]) [(''label'', PStr ''Channel 1'')]], None)
          \<and> plot ?m (PList [PInt 3, PInt 5]) = plot ?m (PList [PInt 3, PList [PInt 5]])"
    by blast
  from plot_single_series [OF c, of "PInt 5" "PList [PInt 0, PInt 1, PInt 2]" "PList [PInt 0, PInt 1, PInt 0]"] d1
  have e: "plot ?m (PList [PList [PInt 0, PInt 1, PInt 2], PList [PInt 0, PInt 1, PInt 0]])
             = ([Plot (PList [PInt 0, PInt 1, PInt 2]) (PList [PInt 0, PInt 1, PInt 0]) [(''label'', PStr ''Channel 1'')]], None)"
    by blast
  from ab e show ?thesis by blast
qed

end
